theory Spec2Isabelle
  imports Complex_Main "HOL-Library.AList"
begin

section \<open>Data model\<close>

text \<open>
  Python \<open>float\<close> amounts are modelled as real numbers (no rounding, no infinities, no
  NaN); a division of Python floats whose divisor is zero raises \<open>ZeroDivisionError\<close>.  A \<open>datetime\<close> is a number of microseconds since the epoch and a \<open>timedelta\<close> a
  number of microseconds, both unbounded integers.
\<close>

type_synonym timedelta = int
type_synonym datetime = int

definition timedelta_seconds :: "int \<Rightarrow> timedelta" where
  "timedelta_seconds s = s * 1000000"

definition total_seconds :: "timedelta \<Rightarrow> real" where
  "total_seconds d = real_of_int d / 1000000"

definition timedelta_days :: "timedelta \<Rightarrow> int" where
  "timedelta_days d = d div 86400000000"

text \<open>
  The price an environment returns is an element of a numpy array, a \<open>numpy.float64\<close>;
  the collateral value \<open>collateral_amount * price\<close> is one too, and a quotient by it is
  a numpy division: with a zero divisor its result is \<open>inf\<close>, \<open>-inf\<close> or \<open>nan\<close> (with a
  \<open>RuntimeWarning\<close>) and nothing is raised.  \<open>NonFinite\<close> stands for these three results.
\<close>

datatype float64 = Finite real | NonFinite

definition np_div :: "real \<Rightarrow> real \<Rightarrow> float64" where
  "np_div a b = (if b = 0 then NonFinite else Finite (a / b))"

datatype error =
    LendingPoolNotRunning
  | LoanAmountTooLow
  | InsuficientCollateralError real float64
  | InsufficientBalanceError
  | InsufficientLiquidityError
  | InvalidLoanPeriodShort
  | InvalidLoanPeriodLong
  | NonExistingBorrowerAddress
  | InvalidLoanId
  | LoanExpiredError
  | ZeroDivisionError
  | KeyError
  | IndexError
  | ValueError
  | AssertionError
  | AttributeError

text \<open>The error kinds declared in \<open>exceptions.py\<close> that the pool raises by name.\<close>

fun is_pool_error :: "error \<Rightarrow> bool" where
  "is_pool_error LendingPoolNotRunning = True"
| "is_pool_error LoanAmountTooLow = True"
| "is_pool_error (InsuficientCollateralError a b) = True"
| "is_pool_error InsufficientBalanceError = True"
| "is_pool_error InsufficientLiquidityError = True"
| "is_pool_error InvalidLoanPeriodShort = True"
| "is_pool_error InvalidLoanPeriodLong = True"
| "is_pool_error NonExistingBorrowerAddress = True"
| "is_pool_error InvalidLoanId = True"
| "is_pool_error LoanExpiredError = True"
| "is_pool_error e = False"

subsection \<open>Dictionaries\<close>

text \<open>
  A Python \<open>dict\<close> is an association list in insertion order: \<open>d[k] = v\<close> is
  \<open>AList.update k v d\<close> (in place when the key is present, appended otherwise),
  \<open>del d[k]\<close> is \<open>AList.delete k d\<close>, \<open>d.get(k, x)\<close> is \<open>dict_get d k x\<close> and
  \<open>d[k]\<close> read is \<open>dict_lookup d k\<close>, which raises \<open>KeyError\<close> on a missing key.
\<close>

type_synonym ('k, 'v) dict = "('k \<times> 'v) list"

definition dict_get :: "('k, 'v) dict \<Rightarrow> 'k \<Rightarrow> 'v \<Rightarrow> 'v" where
  "dict_get d k x = (case map_of d k of None \<Rightarrow> x | Some v \<Rightarrow> v)"

definition dict_lookup :: "('k, 'v) dict \<Rightarrow> 'k \<Rightarrow> error + 'v" where
  "dict_lookup d k = (case map_of d k of None \<Rightarrow> Inl KeyError | Some v \<Rightarrow> Inr v)"

definition dict_values :: "('k, 'v) dict \<Rightarrow> 'v list" where
  "dict_values d = map snd d"

text \<open>
  The idiom \<open>if k not in d: d[k] = 0\<close> followed by \<open>d[k] += x\<close>.
\<close>

definition dict_add :: "('k, real) dict \<Rightarrow> 'k \<Rightarrow> real \<Rightarrow> ('k, real) dict" where
  "dict_add d k x =
     (let d0 = (if map_of d k = None then AList.update k 0 d else d)
      in AList.update k (dict_get d0 k 0 + x) d0)"

definition py_div :: "real \<Rightarrow> real \<Rightarrow> error + real" where
  "py_div a b = (if b = 0 then Inl ZeroDivisionError else Inr (a / b))"

subsection \<open>Wallet, loan, cycle data, pool\<close>

record environment =
  env_time :: datetime
  env_price :: real

definition get_time :: "environment \<Rightarrow> datetime" where
  "get_time env = env_time env"

definition get_price :: "environment \<Rightarrow> real" where
  "get_price env = env_price env"

record Wallet =
  address :: string
  primary_balance :: real
  secondary_balance :: real

record Loan =
  start_time :: datetime
  borrowing_fee :: real
  net_loan :: real
  total_debt :: real
  expiration_time :: datetime
  collateral_amount :: real
  loan_id :: string
  borrower_address :: string
  initial_ltv :: float64
  paid :: bool

definition is_expired :: "Loan \<Rightarrow> environment \<Rightarrow> bool" where
  "is_expired l env = (expiration_time l < get_time env)"

definition get_duration :: "Loan \<Rightarrow> timedelta" where
  "get_duration l = expiration_time l - start_time l"

definition get_sizedays :: "Loan \<Rightarrow> real" where
  "get_sizedays l = (total_seconds (get_duration l) / 86400) * net_loan l"

record CycleData =
  cd_initial_liquidity :: real
  cd_remaining_liquidity :: real
  cd_total_reclaimed_collateral :: real
  cd_total_fees_earned :: real
  cd_final_collateral_price :: real
  cd_final_collateral_value :: real
  cd_average_utilization :: real
  cd_normalized_utilization :: real
  cd_loans :: "Loan list"

datatype LendingPoolStatus = GENESIS | RUNNING

text \<open>
  An \<open>EventInfo\<close> without its human-readable message; \<open>ev_total_deposits\<close>,
  \<open>ev_cycle\<close> and \<open>ev_lending_pool\<close> are the entries of its \<open>extra\<close> dictionary.
\<close>

record EventInfo =
  ev_time :: datetime
  ev_type :: string
  ev_total_deposits :: real
  ev_cycle :: int
  ev_lending_pool :: string

text \<open>
  The pool.  \<open>fee_model\<close> is the \<open>get_fee\<close> method of the pool's fee model object
  (any \<open>BaseCoraFeeModel\<close>), which may raise.  The environment the pool refers to is
  passed to each operation.
\<close>

record LendingPool =
  name :: string
  fee_model :: "float64 \<Rightarrow> real \<Rightarrow> timedelta \<Rightarrow> error + real"
  max_ltv :: real
  max_liquidity :: real
  genesis_period :: timedelta
  running_period :: timedelta
  min_liquidity :: real
  min_loan_amount :: real
  min_load_period :: timedelta
  min_position_size :: real
  status :: LendingPoolStatus
  next_cycle_time :: datetime
  pending_deposits :: "(string, real) dict"
  signaled_withdrawals :: "(string, real) dict"
  pending_withdrawals :: "(string, real) dict"
  reclaimed_collateral :: "(string, real) dict"
  deposits :: "(string, real) dict"
  borrower_loans :: "(string, string list) dict"
  loans :: "(string, Loan) dict"
  utilizations :: "real list"
  cycle_history :: "(int, CycleData) dict"
  total_deposits :: real
  total_collateral_locked :: real
  available_amount :: real
  borrowed_amount :: real
  total_fees_earned :: real
  is_new_cycle :: bool
  cycle_count :: int

definition LendingPool_init ::
  "string \<Rightarrow> environment \<Rightarrow> (float64 \<Rightarrow> real \<Rightarrow> timedelta \<Rightarrow> error + real) \<Rightarrow> real \<Rightarrow> real \<Rightarrow>
   int \<Rightarrow> int \<Rightarrow> real \<Rightarrow> real \<Rightarrow> int \<Rightarrow> real \<Rightarrow> LendingPool" where
  "LendingPool_init nm env fm mltv mliq genesis_period_seconds running_period_seconds
     min_liq min_loan min_loan_period_seconds min_pos =
   \<lparr> name = nm, fee_model = fm, max_ltv = mltv, max_liquidity = mliq,
     genesis_period = timedelta_seconds genesis_period_seconds,
     running_period = timedelta_seconds running_period_seconds,
     min_liquidity = min_liq, min_loan_amount = min_loan,
     min_load_period = timedelta_seconds min_loan_period_seconds,
     min_position_size = min_pos,
     status = GENESIS,
     next_cycle_time = get_time env + timedelta_seconds genesis_period_seconds,
     pending_deposits = [], signaled_withdrawals = [], pending_withdrawals = [],
     reclaimed_collateral = [], deposits = [],
     borrower_loans = [], loans = [], utilizations = [], cycle_history = [],
     total_deposits = 0, total_collateral_locked = 0, available_amount = 0,
     borrowed_amount = 0, total_fees_earned = 0,
     is_new_cycle = False, cycle_count = 0 \<rparr>"

section \<open>Utilization\<close>

definition safe_divide :: "real \<Rightarrow> real \<Rightarrow> real" where
  "safe_divide a b = (if b \<noteq> 0 then a / b else 0)"

definition get_utilization :: "LendingPool \<Rightarrow> real" where
  "get_utilization p = safe_divide (borrowed_amount p) (borrowed_amount p + available_amount p)"

definition get_current_utilization :: "LendingPool \<Rightarrow> error + real" where
  "get_current_utilization p =
     (if available_amount p = 0 then Inr 1
      else (let total_amount = available_amount p + borrowed_amount p
            in case py_div (borrowed_amount p) total_amount of
                 Inl e \<Rightarrow> Inl e
               | Inr utilization \<Rightarrow> Inr (if utilization > 0 then utilization else 0)))"

section \<open>Lender operations\<close>

text \<open>
  An operation that mutates the pool and a wallet returns its outcome (\<open>Inl\<close> the
  exception raised, \<open>Inr\<close> the value returned) together with the pool and the wallet as
  they are when it returns or raises, so that a mutation made before a raise is visible.
\<close>

text \<open>\<open>d[k] += x\<close> on an existing dictionary: reading a missing key raises.\<close>

definition dict_iadd :: "('k, real) dict \<Rightarrow> 'k \<Rightarrow> real \<Rightarrow> error + ('k, real) dict" where
  "dict_iadd d k x =
     (case map_of d k of None \<Rightarrow> Inl KeyError | Some v \<Rightarrow> Inr (AList.update k (v + x) d))"

definition dict_del :: "('k, 'v) dict \<Rightarrow> 'k \<Rightarrow> error + ('k, 'v) dict" where
  "dict_del d k = (if map_of d k = None then Inl KeyError else Inr (AList.delete k d))"

definition deposit ::
  "LendingPool \<Rightarrow> Wallet \<Rightarrow> real \<Rightarrow> (error + unit) \<times> LendingPool \<times> Wallet" where
  "deposit p lender amount =
     (if primary_balance lender < amount then (Inl InsufficientBalanceError, p, lender)
      else
        (let p1 = (if map_of (pending_deposits p) (address lender) = None
                   then p\<lparr>pending_deposits := AList.update (address lender) 0 (pending_deposits p)\<rparr>
                   else p);
             lender1 = lender\<lparr>primary_balance := primary_balance lender - amount\<rparr>
         in case dict_iadd (pending_deposits p1) (address lender) amount of
              Inl e \<Rightarrow> (Inl e, p1, lender1)
            | Inr d \<Rightarrow> (Inr (), p1\<lparr>pending_deposits := d\<rparr>, lender1)))"

definition signal_withdrawal ::
  "LendingPool \<Rightarrow> Wallet \<Rightarrow> real \<Rightarrow> (error + unit) \<times> LendingPool" where
  "signal_withdrawal p lender ratio =
     (if status p \<noteq> RUNNING then (Inl LendingPoolNotRunning, p)
      else if \<not> (0 \<le> ratio \<and> ratio \<le> 1) then (Inl AssertionError, p)
      else if map_of (deposits p) (address lender) = None then (Inl AssertionError, p)
      else (Inr (), p\<lparr>signaled_withdrawals :=
                        AList.update (address lender) ratio (signaled_withdrawals p)\<rparr>))"

definition withdraw_liquidity ::
  "LendingPool \<Rightarrow> Wallet \<Rightarrow> real \<Rightarrow> (error + unit) \<times> LendingPool \<times> Wallet" where
  "withdraw_liquidity p lender amount =
     (if \<not> amount > 0 then (Inl AssertionError, p, lender)
      else
        (let pending_deps = dict_get (pending_deposits p) (address lender) 0;
             pending_wdrs = dict_get (pending_withdrawals p) (address lender) 0;
             total_available = pending_deps + pending_wdrs
         in if \<not> total_available \<ge> amount then (Inl AssertionError, p, lender)
            else if amount < pending_deps then
              (case dict_iadd (pending_deposits p) (address lender) (- amount) of
                 Inl e \<Rightarrow> (Inl e, p, lender)
               | Inr d \<Rightarrow>
                   (Inr (), p\<lparr>pending_deposits := d\<rparr>,
                    lender\<lparr>primary_balance := primary_balance lender + amount\<rparr>))
            else
              (case dict_del (pending_deposits p) (address lender) of
                 Inl e \<Rightarrow> (Inl e, p, lender)
               | Inr d \<Rightarrow>
                   (let p1 = p\<lparr>pending_deposits := d\<rparr>;
                        remaining_amount = amount - pending_deps
                    in case dict_iadd (pending_withdrawals p1) (address lender)
                              (- remaining_amount) of
                         Inl e \<Rightarrow> (Inl e, p1, lender)
                       | Inr d' \<Rightarrow>
                           (Inr (), p1\<lparr>pending_withdrawals := d'\<rparr>,
                            lender\<lparr>primary_balance := primary_balance lender + amount\<rparr>)))))"

definition withdraw_collateral ::
  "LendingPool \<Rightarrow> Wallet \<Rightarrow> real \<Rightarrow> (error + unit) \<times> LendingPool \<times> Wallet" where
  "withdraw_collateral p lender amount =
     (if \<not> amount > 0 then (Inl AssertionError, p, lender)
      else
        (let reclaimed = dict_get (reclaimed_collateral p) (address lender) 0
         in if \<not> reclaimed \<ge> amount then (Inl AssertionError, p, lender)
            else
              (case dict_iadd (reclaimed_collateral p) (address lender) (- amount) of
                 Inl e \<Rightarrow> (Inl e, p, lender)
               | Inr d \<Rightarrow>
                   (Inr (), p\<lparr>reclaimed_collateral := d\<rparr>,
                    lender\<lparr>secondary_balance := secondary_balance lender + amount\<rparr>))))"

section \<open>Borrower operations\<close>

fun str_nat :: "nat \<Rightarrow> string" where
  "str_nat n = (if n < 10 then [char_of (48 + n)]
                else str_nat (n div 10) @ [char_of (48 + n mod 10)])"

declare str_nat.simps [simp del]

definition str_int :: "int \<Rightarrow> string" where
  "str_int i = (if i < 0 then CHR ''-'' # str_nat (nat (- i)) else str_nat (nat i))"

text \<open>
  \<open>int(expiration_time.timestamp())\<close>: whole seconds since the epoch, truncated towards
  zero (times are taken as UTC).
\<close>

definition timestamp_int :: "datetime \<Rightarrow> int" where
  "timestamp_int t = (if t < 0 then - ((- t) div 1000000) else t div 1000000)"

definition calculate_loan_id :: "LendingPool \<Rightarrow> Wallet \<Rightarrow> int \<Rightarrow> string" where
  "calculate_loan_id p borrower expiration = name p @ ''-'' @ address borrower @ ''-'' @ str_int expiration"

definition calculate_fee :: "LendingPool \<Rightarrow> real \<Rightarrow> real \<Rightarrow> timedelta \<Rightarrow> error + real" where
  "calculate_fee p borrow_amount collateral_value loan_period =
     (let ltv = np_div borrow_amount collateral_value
      in case get_current_utilization p of
           Inl e \<Rightarrow> Inl e
         | Inr utilization \<Rightarrow>
             (case fee_model p ltv utilization loan_period of
                Inl e \<Rightarrow> Inl e
              | Inr fee_percentage \<Rightarrow> Inr (fee_percentage * borrow_amount)))"

definition borrow ::
  "LendingPool \<Rightarrow> environment \<Rightarrow> Wallet \<Rightarrow> real \<Rightarrow> real \<Rightarrow> timedelta \<Rightarrow>
   (error + Loan) \<times> LendingPool \<times> Wallet" where
  "borrow p env borrower borrow_amount collat_amount loan_period =
     (if status p \<noteq> RUNNING then (Inl LendingPoolNotRunning, p, borrower)
      else
        (let price = get_price env;
             time = get_time env;
             total_collateral_value = collat_amount * price;
             ltv = np_div borrow_amount total_collateral_value;
             max_amount_available_to_borrow = total_collateral_value * max_ltv p
         in if borrow_amount < min_loan_amount p then (Inl LoanAmountTooLow, p, borrower)
            else if borrow_amount > max_amount_available_to_borrow
              then (Inl (InsuficientCollateralError borrow_amount ltv), p, borrower)
            else if secondary_balance borrower < collat_amount
              then (Inl InsufficientBalanceError, p, borrower)
            else if available_amount p < borrow_amount
              then (Inl InsufficientLiquidityError, p, borrower)
            else if loan_period < min_load_period p then (Inl InvalidLoanPeriodShort, p, borrower)
            else if loan_period > next_cycle_time p - time
              then (Inl InvalidLoanPeriodLong, p, borrower)
            else
              (case calculate_fee p borrow_amount total_collateral_value loan_period of
                 Inl e \<Rightarrow> (Inl e, p, borrower)
               | Inr fee \<Rightarrow>
        (let p1 = p\<lparr>total_collateral_locked := total_collateral_locked p + collat_amount\<rparr>;
             net_loan_amount = borrow_amount - fee;
             p2 = p1\<lparr>available_amount := available_amount p1 - net_loan_amount\<rparr>;
             p3 = p2\<lparr>borrowed_amount := borrowed_amount p2 + net_loan_amount\<rparr>;
             borrower1 = borrower\<lparr>secondary_balance := secondary_balance borrower - collat_amount\<rparr>;
             borrower2 = borrower1\<lparr>primary_balance := primary_balance borrower1 + net_loan_amount\<rparr>;
             expiration = time + loan_period;
             expiration_timestamp = timestamp_int expiration;
             lid = calculate_loan_id p3 borrower2 expiration_timestamp;
             p4 = (if map_of (borrower_loans p3) (address borrower2) = None
                   then p3\<lparr>borrower_loans := AList.update (address borrower2) [] (borrower_loans p3)\<rparr>
                   else p3);
             p5 = p4\<lparr>borrower_loans :=
                        AList.update (address borrower2)
                          (dict_get (borrower_loans p4) (address borrower2) [] @ [lid])
                          (borrower_loans p4)\<rparr>;
             initial_loan_ltv = np_div borrow_amount (collat_amount * price);
             loan = \<lparr> start_time = get_time env, borrowing_fee = fee,
                      net_loan = net_loan_amount, total_debt = borrow_amount,
                      expiration_time = expiration, collateral_amount = collat_amount,
                      loan_id = lid, borrower_address = address borrower2,
                      initial_ltv = initial_loan_ltv, paid = False \<rparr>
         in (Inr loan, p5\<lparr>loans := AList.update lid loan (loans p5)\<rparr>, borrower2)))))"

definition repay ::
  "LendingPool \<Rightarrow> environment \<Rightarrow> Wallet \<Rightarrow> string \<Rightarrow> (error + unit) \<times> LendingPool \<times> Wallet" where
  "repay p env borrower lid =
     (if status p \<noteq> RUNNING then (Inl LendingPoolNotRunning, p, borrower)
      else
        (case map_of (borrower_loans p) (address borrower) of
           None \<Rightarrow> (Inl NonExistingBorrowerAddress, p, borrower)
         | Some ids \<Rightarrow>
             if lid \<notin> set ids then (Inl InvalidLoanId, p, borrower)
             else
               (case dict_lookup (loans p) lid of
                  Inl e \<Rightarrow> (Inl e, p, borrower)
                | Inr loan \<Rightarrow>
                    if get_time env > expiration_time loan then (Inl LoanExpiredError, p, borrower)
                    else if primary_balance borrower < total_debt loan
                      then (Inl InsufficientBalanceError, p, borrower)
                    else
                      (let p1 = p\<lparr>available_amount := available_amount p + total_debt loan\<rparr>;
                           p2 = p1\<lparr>borrowed_amount := borrowed_amount p1 - net_loan loan\<rparr>;
                           p3 = p2\<lparr>total_collateral_locked :=
                                      total_collateral_locked p2 - collateral_amount loan\<rparr>;
                           p4 = p3\<lparr>total_fees_earned := total_fees_earned p3 + borrowing_fee loan\<rparr>;
                           borrower1 = borrower\<lparr>primary_balance :=
                                                 primary_balance borrower - total_debt loan\<rparr>;
                           borrower2 = borrower1\<lparr>secondary_balance :=
                                                   secondary_balance borrower1 + collateral_amount loan\<rparr>;
                           p5 = p4\<lparr>borrower_loans :=
                                      AList.update (address borrower2) (remove1 lid ids)
                                        (borrower_loans p4)\<rparr>
                       in (Inr (),
                           p5\<lparr>loans := AList.update lid (loan\<lparr>paid := True\<rparr>) (loans p5)\<rparr>,
                           borrower2)))))"

section \<open>The pool's step\<close>

text \<open>
  The three loops of the settlement at the end of a running cycle.  \<open>settle_deposits\<close>
  assigns each depositor its share of the remaining liquidity and of the locked
  collateral; \<open>execute_withdrawals\<close> moves the signaled ratio of each share to the pending
  withdrawals; \<open>add_residual\<close> adds what is left of each share to the new deposits.
\<close>

fun settle_deposits ::
  "(string \<times> real) list \<Rightarrow> real \<Rightarrow> real \<Rightarrow> real \<Rightarrow>
   (string, real) dict \<times> (string, real) dict \<Rightarrow>
   error + ((string, real) dict \<times> (string, real) dict)" where
  "settle_deposits [] total_deps remaining_liquidity total_reclaimed (final_liq, reclaimed) =
     Inr (final_liq, reclaimed)"
| "settle_deposits ((addr, deposit_amount) # rest) total_deps remaining_liquidity total_reclaimed
     (final_liq, reclaimed) =
     (case py_div deposit_amount total_deps of
        Inl e \<Rightarrow> Inl e
      | Inr ownership_ratio \<Rightarrow>
          settle_deposits rest total_deps remaining_liquidity total_reclaimed
            (AList.update addr (ownership_ratio * remaining_liquidity) final_liq,
             dict_add reclaimed addr (ownership_ratio * total_reclaimed)))"

fun execute_withdrawals ::
  "(string \<times> real) list \<Rightarrow> (string, real) dict \<times> (string, real) dict \<Rightarrow>
   error + ((string, real) dict \<times> (string, real) dict)" where
  "execute_withdrawals [] (final_liq, pending_wdrs) = Inr (final_liq, pending_wdrs)"
| "execute_withdrawals ((addr, withdrawal_ratio) # rest) (final_liq, pending_wdrs) =
     (case dict_lookup final_liq addr of
        Inl e \<Rightarrow> Inl e
      | Inr lender_liquidity \<Rightarrow>
          (let lender_withdrawal = lender_liquidity * withdrawal_ratio
           in execute_withdrawals rest
                (AList.update addr (lender_liquidity - lender_withdrawal) final_liq,
                 dict_add pending_wdrs addr lender_withdrawal)))"

fun add_residual :: "(string \<times> real) list \<Rightarrow> (string, real) dict \<Rightarrow> (string, real) dict" where
  "add_residual [] deps = deps"
| "add_residual ((addr, amount) # rest) deps =
     add_residual rest (if amount > 0 then dict_add deps addr amount else deps)"

definition genesis_ended :: "LendingPool \<Rightarrow> environment \<Rightarrow> LendingPool \<times> EventInfo list" where
  "genesis_ended p env =
     (let p1 = p\<lparr>status := RUNNING\<rparr>;
          p2 = p1\<lparr>cycle_count := cycle_count p1 + 1\<rparr>;
          p3 = p2\<lparr>deposits := pending_deposits p2\<rparr>
      in (p3, [\<lparr> ev_time = get_time env, ev_type = ''lending_pool_genesis_period_ended'',
                  ev_total_deposits = total_deposits p3, ev_cycle = cycle_count p3,
                  ev_lending_pool = name p3 \<rparr>]))"

definition running_ended ::
  "LendingPool \<Rightarrow> environment \<Rightarrow> error + (LendingPool \<times> EventInfo list)" where
  "running_ended p env =
     (let p1 = p\<lparr>cycle_count := cycle_count p + 1\<rparr>;
          total_reclaimed_collateral = total_collateral_locked p1;
          remaining_liquidity = available_amount p1
      in case settle_deposits (deposits p1) (total_deposits p1) remaining_liquidity
                total_reclaimed_collateral ([], reclaimed_collateral p1) of
           Inl e \<Rightarrow> Inl e
         | Inr (final_liq1, reclaimed) \<Rightarrow>
      (case execute_withdrawals (signaled_withdrawals p1) (final_liq1, pending_withdrawals p1) of
           Inl e \<Rightarrow> Inl e
         | Inr (final_liq2, pending_wdrs) \<Rightarrow>
      (let p2 = p1\<lparr>reclaimed_collateral := reclaimed, pending_withdrawals := pending_wdrs\<rparr>;
           p3 = p2\<lparr>deposits := add_residual final_liq2 (pending_deposits p2)\<rparr>
       in case py_div (sum_list (utilizations p3)) (real (length (utilizations p3))) of
            Inl e \<Rightarrow> Inl e
          | Inr average_utilization \<Rightarrow>
       (let pool_sizedays = total_deposits p3 * total_seconds (running_period p3) / 86400
        in case py_div (sum_list (map get_sizedays (dict_values (loans p3)))) pool_sizedays of
             Inl e \<Rightarrow> Inl e
           | Inr normalized_utilization \<Rightarrow>
        (let cd = \<lparr> cd_initial_liquidity = total_deposits p3,
                     cd_remaining_liquidity = available_amount p3,
                     cd_total_reclaimed_collateral = total_reclaimed_collateral,
                     cd_total_fees_earned = total_fees_earned p3,
                     cd_final_collateral_price = get_price env,
                     cd_final_collateral_value = get_price env * total_reclaimed_collateral,
                     cd_average_utilization = average_utilization,
                     cd_normalized_utilization = normalized_utilization,
                     cd_loans = dict_values (loans p3) \<rparr>;
             p4 = p3\<lparr>cycle_history := AList.update (cycle_count p3 - 1) cd (cycle_history p3)\<rparr>
         in Inr (p4, [\<lparr> ev_time = get_time env, ev_type = ''lending_pool_running_period_ended'',
                         ev_total_deposits = sum_list (dict_values (deposits p4)),
                         ev_cycle = cycle_count p4 - 1,
                         ev_lending_pool = name p4 \<rparr>]))))))"

text \<open>The block under the comment \<open>Reset lending pool data\<close>.\<close>

definition reset_pool :: "LendingPool \<Rightarrow> LendingPool" where
  "reset_pool p =
     (let p1 = p\<lparr>pending_deposits := [], signaled_withdrawals := [],
                  borrower_loans := [], loans := []\<rparr>;
          p2 = p1\<lparr>total_deposits := sum_list (dict_values (deposits p1))\<rparr>;
          p3 = p2\<lparr>total_collateral_locked := 0\<rparr>;
          p4 = p3\<lparr>available_amount := total_deposits p3\<rparr>;
          p5 = p4\<lparr>borrowed_amount := 0, total_fees_earned := 0, utilizations := []\<rparr>
      in p5\<lparr>next_cycle_time := next_cycle_time p5 + running_period p5\<rparr>)"

text \<open>
  \<open>take_step\<close> returns the pool after the step and the events emitted, or the exception
  raised (the engine then aborts the run; the half-settled pool is not modelled).
\<close>

definition take_step ::
  "LendingPool \<Rightarrow> environment \<Rightarrow> timedelta \<Rightarrow> error + (LendingPool \<times> EventInfo list)" where
  "take_step p env time_step =
     (let time = get_time env;
          p1 = p\<lparr>utilizations := utilizations p @ [get_utilization p]\<rparr>
      in if time \<ge> next_cycle_time p1 then
           (let p2 = p1\<lparr>is_new_cycle := True\<rparr>
            in case (if status p2 = GENESIS then Inr (genesis_ended p2 env)
                     else running_ended p2 env) of
                 Inl e \<Rightarrow> Inl e
               | Inr (p3, events) \<Rightarrow> Inr (reset_pool p3, events))
         else Inr (p1\<lparr>is_new_cycle := False\<rparr>, []))"

section \<open>Kelly fee model\<close>

type_synonym GridPoint = "real \<times> real"

record KellyCurve =
  kc_a :: real
  kc_b :: real
  kc_c :: real
  kc_d :: real

text \<open>
  \<open>a * u * cosh(b * u**c) + d\<close>.  For a float \<open>u\<close> in \<open>[0, 1]\<close> the power \<open>u**c\<close> is
  \<open>u powr c\<close> when \<open>u > 0\<close>; \<open>0.0**c\<close> is 1 for \<open>c = 0\<close>, 0 for \<open>c > 0\<close> and raises
  \<open>ZeroDivisionError\<close> for \<open>c < 0\<close>.
\<close>

definition evaluate :: "KellyCurve \<Rightarrow> real \<Rightarrow> error + real" where
  "evaluate k utilization =
     (if utilization > 1 \<or> utilization < 0 then Inl ValueError
      else if utilization = 0 \<and> kc_c k < 0 then Inl ZeroDivisionError
      else Inr (kc_a k * utilization
                  * cosh (kc_b k * (if utilization = 0 then (if kc_c k = 0 then 1 else 0)
                                    else utilization powr kc_c k))
                + kc_d k))"

text \<open>
  \<open>numpy.searchsorted(sorted_array, value, side="right")\<close> on an ascending array: the
  number of leading elements that are at most \<open>value\<close>.
\<close>

definition searchsorted_right :: "real list \<Rightarrow> real \<Rightarrow> nat" where
  "searchsorted_right sorted_array v = length (takeWhile (\<lambda>x. x \<le> v) sorted_array)"

definition select_next_highest :: "real list \<Rightarrow> real \<Rightarrow> error + real" where
  "select_next_highest sorted_array v =
     (let idx = max (int (searchsorted_right sorted_array v)) (int (length sorted_array) - 1)
      in if 0 \<le> idx \<and> idx < int (length sorted_array) then Inr (sorted_array ! nat idx)
         else Inl IndexError)"

record KellyFeeModel =
  curve_grid :: "(GridPoint, KellyCurve) dict"
  ltvs :: "real list"
  days :: "real list"

definition update_parameters :: "(GridPoint, KellyCurve) dict \<Rightarrow> error + KellyFeeModel" where
  "update_parameters grid =
     (let m = \<lparr> curve_grid = grid,
                 ltvs = sort (remdups (map (\<lambda>(point, curve). fst point) grid)),
                 days = sort (remdups (map (\<lambda>(point, curve). snd point) grid)) \<rparr>
      in if length (curve_grid m) = length (ltvs m) * length (days m) then Inr m
         else Inl AssertionError)"

definition get_fee :: "KellyFeeModel \<Rightarrow> real \<Rightarrow> real \<Rightarrow> timedelta \<Rightarrow> error + real" where
  "get_fee m loan_ltv utilization loan_period =
     (case select_next_highest (ltvs m) loan_ltv of
        Inl e \<Rightarrow> Inl e
      | Inr grid_ltv \<Rightarrow>
          (case select_next_highest (days m) (real_of_int (timedelta_days loan_period)) of
             Inl e \<Rightarrow> Inl e
           | Inr grid_days \<Rightarrow>
               (case dict_lookup (curve_grid m) (grid_ltv, grid_days) of
                  Inl e \<Rightarrow> Inl e
                | Inr curve \<Rightarrow> evaluate curve utilization)))"

section \<open>Agents\<close>

text \<open>
  An \<open>ActionInfo\<close> without its message; of the \<open>extra\<close> dictionary only the loan id is
  kept.  The protocol is its dictionary of pools by name.  A borrower's \<open>loan\<close> attribute
  does not exist until it has borrowed: reading it before raises \<open>AttributeError\<close>.
\<close>

record ActionInfo =
  ai_agent_id :: string
  ai_time :: datetime
  ai_type :: string
  ai_loan_id :: string

type_synonym CoraV1Protocol = "(string, LendingPool) dict"

record CoraBorrowerAgent =
  borrower_id :: string
  wallet :: Wallet
  lending_pool_name :: string
  loan_size :: real
  loan_start :: datetime
  loan_duration :: timedelta
  ltv :: real
  repay_margin :: timedelta
  has_borrowed :: bool
  has_expired :: bool
  loan :: "Loan option"

definition get_current_available_amount :: "LendingPool \<Rightarrow> real" where
  "get_current_available_amount p = available_amount p"

text \<open>The first \<open>if\<close> of \<open>CoraBorrowerAgent.act\<close> (comment \<open>Ask for a loan\<close>).\<close>

definition ask_for_loan ::
  "CoraBorrowerAgent \<Rightarrow> CoraV1Protocol \<Rightarrow> environment \<Rightarrow>
   (error + ActionInfo list) \<times> CoraV1Protocol \<times> CoraBorrowerAgent" where
  "ask_for_loan ag protocol env =
     (let current_time = get_time env
      in if current_time \<ge> loan_start ag \<and> \<not> has_borrowed ag then
           (case dict_lookup protocol (lending_pool_name ag) of
              Inl e \<Rightarrow> (Inl e, protocol, ag)
            | Inr lending_pool \<Rightarrow>
                if get_current_available_amount lending_pool > loan_size ag
                   \<and> loan_duration ag \<le> next_cycle_time lending_pool - current_time
                then
                  (let spot_price = get_price env
                   in case py_div (loan_size ag) (ltv ag) of
                        Inl e \<Rightarrow> (Inl e, protocol, ag)
                      | Inr q \<Rightarrow>
                  (case py_div q spot_price of
                        Inl e \<Rightarrow> (Inl e, protocol, ag)
                      | Inr collat \<Rightarrow>
                  (case borrow lending_pool env (wallet ag) (loan_size ag) collat (loan_duration ag) of
                     (Inl e, pool', wallet') \<Rightarrow>
                        (Inl e, AList.update (lending_pool_name ag) pool' protocol,
                         ag\<lparr>wallet := wallet'\<rparr>)
                   | (Inr new_loan, pool', wallet') \<Rightarrow>
                        (Inr [\<lparr> ai_agent_id = borrower_id ag, ai_time = current_time,
                                 ai_type = ''borrow'', ai_loan_id = loan_id new_loan \<rparr>],
                         AList.update (lending_pool_name ag) pool' protocol,
                         ag\<lparr>wallet := wallet', loan := Some new_loan, has_borrowed := True\<rparr>))))
                else (Inr [], protocol, ag))
         else (Inr [], protocol, ag))"

text \<open>
  The second \<open>if\<close> (comment \<open>Return the loan if beneficial\<close>), given the actions so far.
  The agent's \<open>loan\<close> is the object the pool stores, so the \<open>paid\<close> flag set by \<open>repay\<close>
  shows on it.
\<close>

definition return_loan ::
  "ActionInfo list \<Rightarrow> CoraBorrowerAgent \<Rightarrow> CoraV1Protocol \<Rightarrow> environment \<Rightarrow>
   (error + ActionInfo list) \<times> CoraV1Protocol \<times> CoraBorrowerAgent" where
  "return_loan actions ag protocol env =
     (let current_time = get_time env
      in if has_borrowed ag
            \<and> current_time \<ge> loan_start ag + loan_duration ag - repay_margin ag
            \<and> \<not> has_expired ag then
           (case loan ag of
              None \<Rightarrow> (Inl AttributeError, protocol, ag)
            | Some the_loan \<Rightarrow>
                (let spot_price = get_price env;
                     collateral_value = collateral_amount the_loan * spot_price
                 in if collateral_value > total_debt the_loan then
                      (case dict_lookup protocol (lending_pool_name ag) of
                         Inl e \<Rightarrow> (Inl e, protocol, ag)
                       | Inr lending_pool \<Rightarrow>
                           (case repay lending_pool env (wallet ag) (loan_id the_loan) of
                              (Inl e, pool', wallet') \<Rightarrow>
                                 (Inl e, AList.update (lending_pool_name ag) pool' protocol,
                                  ag\<lparr>wallet := wallet'\<rparr>)
                            | (Inr u, pool', wallet') \<Rightarrow>
                                 (Inr (actions @
                                       [\<lparr> ai_agent_id = borrower_id ag, ai_time = current_time,
                                          ai_type = ''repay'', ai_loan_id = loan_id the_loan \<rparr>]),
                                  AList.update (lending_pool_name ag) pool' protocol,
                                  ag\<lparr>wallet := wallet', loan := Some (the_loan\<lparr>paid := True\<rparr>),
                                     has_expired := True\<rparr>)))
                    else
                      (Inr (actions @
                            [\<lparr> ai_agent_id = borrower_id ag, ai_time = current_time,
                               ai_type = ''let_expire'', ai_loan_id = loan_id the_loan \<rparr>]),
                       protocol, ag\<lparr>has_expired := True\<rparr>)))
         else (Inr actions, protocol, ag))"

definition CoraBorrowerAgent_act ::
  "CoraBorrowerAgent \<Rightarrow> CoraV1Protocol \<Rightarrow> environment \<Rightarrow>
   (error + ActionInfo list) \<times> CoraV1Protocol \<times> CoraBorrowerAgent" where
  "CoraBorrowerAgent_act ag protocol env =
     (case ask_for_loan ag protocol env of
        (Inl e, protocol', ag') \<Rightarrow> (Inl e, protocol', ag')
      | (Inr actions, protocol', ag') \<Rightarrow> return_loan actions ag' protocol' env)"

record CoraLenderAgent =
  lender_id :: string
  lender_wallet :: Wallet
  amount :: real
  has_lended :: bool

text \<open>A pool manager, without its fee model object and the parameters to update it.\<close>

record CoraPoolManager =
  manager_id :: string
  manager_wallet :: Wallet
  manager_pool_name :: string
  manager_max_ltv :: real
  manager_max_liquidity :: real
  genesis_period_seconds :: int
  running_period_seconds :: int
  parameter_update_period :: timedelta
  next_parameter_update :: datetime

datatype BaseCoraAgent =
    Borrower CoraBorrowerAgent
  | Lender CoraLenderAgent
  | PoolManager CoraPoolManager

section \<open>Strategies\<close>

fun is_borrower :: "BaseCoraAgent \<Rightarrow> bool" where
  "is_borrower (Borrower b) = True"
| "is_borrower other = False"

text \<open>
  The loop \<open>for agent in agents: if isinstance(agent, CoraBorrowerAgent):
  agents.remove(agent)\<close>.  A Python list iterator holds an index into the list it walks:
  each round reads \<open>agents[i]\<close> if \<open>i < len(agents)\<close> and increments \<open>i\<close>, whatever the
  body did to the list; \<open>list.remove\<close> deletes the first element equal to its argument.
\<close>

function remove_borrowers :: "nat \<Rightarrow> BaseCoraAgent list \<Rightarrow> BaseCoraAgent list" where
  "remove_borrowers i agents =
     (if i < length agents
      then (let agent = agents ! i
            in remove_borrowers (i + 1)
                 (if is_borrower agent then remove1 agent agents else agents))
      else agents)"
  by pat_completeness auto
termination
  by (relation "measure (\<lambda>(i, agents). length agents - i)") (auto simp add: length_remove1)

declare remove_borrowers.simps [simp del]

text \<open>
  \<open>update_agents\<close> walks the protocol's pools.  Each pool comes with the list that
  \<open>_create_borrower_agents\<close> returns for it (drawn from the strategy's distributions); the
  V1 and V2 strategies differ only in that method, their \<open>update_agents\<close> are the same
  text.
\<close>

fun update_agents ::
  "BaseCoraAgent list \<Rightarrow> (LendingPool \<times> BaseCoraAgent list) list \<Rightarrow> BaseCoraAgent list" where
  "update_agents agents [] = agents"
| "update_agents agents ((lending_pool, new_agents) # rest) =
     update_agents
       (if is_new_cycle lending_pool then remove_borrowers 0 agents @ new_agents else agents)
       rest"

definition CoraV1Strategy_update_agents ::
  "BaseCoraAgent list \<Rightarrow> (LendingPool \<times> BaseCoraAgent list) list \<Rightarrow> BaseCoraAgent list" where
  "CoraV1Strategy_update_agents agents pools = update_agents agents pools"

definition CoraV2Strategy_update_agents ::
  "BaseCoraAgent list \<Rightarrow> (LendingPool \<times> BaseCoraAgent list) list \<Rightarrow> BaseCoraAgent list" where
  "CoraV2Strategy_update_agents agents pools = update_agents agents pools"

section \<open>Market chart helper\<close>

definition get_days_between_unix_timestamps :: "int \<Rightarrow> int \<Rightarrow> int" where
  "get_days_between_unix_timestamps start end = \<bar>(end - start) div 86400\<bar>"

section \<open>Example states\<close>

text \<open>
  The pool of the repository's pool test (no genesis period, a running period of 180
  seconds), a lender, a borrower, and the states the pool goes through when the lender
  deposits 500, the genesis period ends, and the borrower takes a loan of 100 against
  0.1 units of collateral at a price of 2000 with a fee rate of 1 percent.
\<close>

definition genesis_env :: environment where
  "genesis_env = \<lparr> env_time = 0, env_price = 2000 \<rparr>"

definition example_env :: environment where
  "example_env = \<lparr> env_time = timedelta_seconds 60, env_price = 2000 \<rparr>"

definition cycle_end_env :: environment where
  "cycle_end_env = \<lparr> env_time = timedelta_seconds 180, env_price = 2000 \<rparr>"

definition example_fee_model :: "float64 \<Rightarrow> real \<Rightarrow> timedelta \<Rightarrow> error + real" where
  "example_fee_model l u d = Inr (1 / 100)"

definition example_pool :: LendingPool where
  "example_pool = LendingPool_init ''LendingPool'' genesis_env example_fee_model
                     (9 / 10) 1000 0 180 0 0 0 0"

definition example_lender :: Wallet where
  "example_lender =
     \<lparr> address = ''lender_000000'', primary_balance = 1000, secondary_balance = 2000 \<rparr>"

definition example_borrower :: Wallet where
  "example_borrower = \<lparr> address = ''borrower_000000'', primary_balance = 1000000000,
                         secondary_balance = 1000000000 \<rparr>"

definition deposited_pool :: LendingPool where
  "deposited_pool = example_pool\<lparr> pending_deposits := [(''lender_000000'', 500)] \<rparr>"

definition running_pool :: LendingPool where
  "running_pool = example_pool\<lparr> status := RUNNING, next_cycle_time := timedelta_seconds 180,
       deposits := [(''lender_000000'', 500)], total_deposits := 500, available_amount := 500,
       is_new_cycle := True, cycle_count := 1 \<rparr>"

definition example_loan :: Loan where
  "example_loan = \<lparr> start_time = timedelta_seconds 60, borrowing_fee = 1, net_loan = 99,
       total_debt = 100, expiration_time = timedelta_seconds 120, collateral_amount = 1 / 10,
       loan_id = ''LendingPool-borrower_000000-120'', borrower_address = ''borrower_000000'',
       initial_ltv = Finite (1 / 2), paid = False \<rparr>"

definition pool_with_loan :: LendingPool where
  "pool_with_loan = running_pool\<lparr> total_collateral_locked := 1 / 10, available_amount := 401,
       borrowed_amount := 99,
       borrower_loans := [(''borrower_000000'', [''LendingPool-borrower_000000-120''])],
       loans := [(''LendingPool-borrower_000000-120'', example_loan)] \<rparr>"

definition example_grid :: "(GridPoint, KellyCurve) dict" where
  "example_grid =
     [((5 / 10, 30), \<lparr> kc_a = 0, kc_b = 0, kc_c = 1, kc_d = 1 / 100 \<rparr>),
      ((7 / 10, 30), \<lparr> kc_a = 0, kc_b = 0, kc_c = 1, kc_d = 2 / 100 \<rparr>)]"

definition example_kelly :: KellyFeeModel where
  "example_kelly = \<lparr> curve_grid = example_grid, ltvs = [5 / 10, 7 / 10], days = [30] \<rparr>"

definition example_borrower_agent :: CoraBorrowerAgent where
  "example_borrower_agent =
     \<lparr> borrower_id = ''borrower_000000'', wallet = example_borrower,
       lending_pool_name = ''LendingPool'', loan_size = 500,
       loan_start = timedelta_seconds 60, loan_duration = timedelta_seconds 60, ltv = 1 / 2,
       repay_margin = timedelta_seconds 60, has_borrowed = False, has_expired = False,
       loan = None \<rparr>"

definition second_borrower_agent :: CoraBorrowerAgent where
  "second_borrower_agent =
     example_borrower_agent\<lparr> borrower_id := ''borrower_000001'',
        wallet := example_borrower\<lparr>address := ''borrower_000001''\<rparr> \<rparr>"

definition example_lender_agent :: CoraLenderAgent where
  "example_lender_agent =
     \<lparr> lender_id = ''lender_000000'', lender_wallet = example_lender, amount = 500,
       has_lended = True \<rparr>"

definition example_manager :: CoraPoolManager where
  "example_manager =
     \<lparr> manager_id = ''poolmanager_000000'',
       manager_wallet = \<lparr> address = ''poolmanager_000000'', primary_balance = 0,
                          secondary_balance = 0 \<rparr>,
       manager_pool_name = ''LendingPool'', manager_max_ltv = 9 / 10,
       manager_max_liquidity = 1000, genesis_period_seconds = 0, running_period_seconds = 180,
       parameter_update_period = timedelta_seconds 86400, next_parameter_update = 0 \<rparr>"

section \<open>Properties\<close>

lemmas example_defs = genesis_env_def example_env_def cycle_end_env_def example_fee_model_def
  example_pool_def example_lender_def example_borrower_def deposited_pool_def running_pool_def
  example_loan_def pool_with_loan_def LendingPool_init_def timedelta_seconds_def get_time_def
  get_price_def

lemmas agent_defs = example_borrower_agent_def second_borrower_agent_def
  example_lender_agent_def example_manager_def

subsection \<open>The example states are the ones the operations produce\<close>

lemma str_int_120: "str_int 120 = ''120''"
  by code_simp

lemma deposit_example:
  "deposit example_pool example_lender 500
     = (Inr (), deposited_pool, example_lender\<lparr>primary_balance := 500\<rparr>)"
  by (simp add: example_defs deposit_def dict_iadd_def)

lemma take_step_genesis_example:
  "take_step deposited_pool example_env (timedelta_seconds 60)
     = Inr (running_pool,
            [\<lparr> ev_time = timedelta_seconds 60, ev_type = ''lending_pool_genesis_period_ended'',
               ev_total_deposits = 0, ev_cycle = 1, ev_lending_pool = ''LendingPool'' \<rparr>])"
  by (simp add: example_defs take_step_def genesis_ended_def reset_pool_def Let_def
      get_utilization_def safe_divide_def dict_values_def)

lemma borrow_example:
  "borrow running_pool example_env example_borrower 100 (1 / 10) (timedelta_seconds 60)
     = (Inr example_loan, pool_with_loan,
        example_borrower\<lparr>primary_balance := 1000000099,
                          secondary_balance := 1000000000 - 1 / 10\<rparr>)"
  by (simp add: example_defs borrow_def calculate_fee_def get_current_utilization_def
      py_div_def np_div_def Let_def calculate_loan_id_def timestamp_int_def str_int_120
      dict_get_def)

lemma update_parameters_example: "update_parameters example_grid = Inr example_kelly"
  by (simp add: update_parameters_def example_grid_def example_kelly_def Let_def)

subsection \<open>Dictionaries\<close>

lemma keys_update: "fst ` set (AList.update k v al) = insert k (fst ` set al)"
  by (induction al) auto

lemma sum_list_distinct_keys:
  "distinct (map fst d) \<Longrightarrow>
   sum_list (dict_values d) = (\<Sum>a \<in> fst ` set d. dict_get d a (0::real))"
proof (induction d)
  case Nil
  then show ?case by (simp add: dict_values_def)
next
  case (Cons kv d)
  obtain k v where kv: "kv = (k, v)" by (cases kv)
  from Cons.prems kv have notin: "k \<notin> fst ` set d" and dist: "distinct (map fst d)"
    by auto
  have same: "(\<Sum>a \<in> fst ` set d. dict_get ((k, v) # d) a 0)
              = (\<Sum>a \<in> fst ` set d. dict_get d a 0)"
    using notin by (intro sum.cong) (auto simp: dict_get_def)
  have "(\<Sum>a \<in> fst ` set (kv # d). dict_get (kv # d) a 0)
        = dict_get ((k, v) # d) k 0 + (\<Sum>a \<in> fst ` set d. dict_get ((k, v) # d) a 0)"
    using notin kv by simp
  also have "\<dots> = v + sum_list (dict_values d)"
    using same Cons.IH[OF dist] by (simp add: dict_get_def)
  finally show ?case using kv by (simp add: dict_values_def)
qed

lemma distinct_dict_add: "distinct (map fst d) \<Longrightarrow> distinct (map fst (dict_add d k x))"
  by (simp add: dict_add_def Let_def distinct_update)

lemma distinct_add_residual:
  "distinct (map fst deps) \<Longrightarrow> distinct (map fst (add_residual fl deps))"
  by (induction fl deps rule: add_residual.induct) (simp_all add: distinct_dict_add)

subsection \<open>Cycle boundaries\<close>

text \<open>
  The settlement loops return normally when the divisor is not zero and every lender
  who signaled a withdrawal has a deposit.
\<close>

lemma settle_deposits_total:
  "total_deps \<noteq> 0 \<Longrightarrow>
   \<exists>fl rc. settle_deposits ds total_deps rl trc acc = Inr (fl, rc)
      \<and> fst ` set fl = fst ` set (fst acc) \<union> fst ` set ds"
proof (induction ds arbitrary: acc)
  case Nil
  then show ?case by (cases acc) simp
next
  case (Cons kv ds)
  obtain k v where kv: "kv = (k, v)" by (cases kv)
  obtain fl0 rc0 where acc: "acc = (fl0, rc0)" by (cases acc)
  from Cons.IH[OF Cons.prems, of "(AList.update k (v / total_deps * rl) fl0,
        dict_add rc0 k (v / total_deps * trc))"]
  show ?case using Cons.prems kv acc
    by (auto simp add: py_div_def keys_update)
qed

lemma execute_withdrawals_total:
  "fst ` set sw \<subseteq> fst ` set (fst acc) \<Longrightarrow>
   \<exists>fl pw. execute_withdrawals sw acc = Inr (fl, pw)"
proof (induction sw arbitrary: acc)
  case Nil
  then show ?case by (cases acc) simp
next
  case (Cons kv sw)
  obtain k r where kv: "kv = (k, r)" by (cases kv)
  obtain fl0 pw0 where acc: "acc = (fl0, pw0)" by (cases acc)
  from Cons.prems kv acc have "k \<in> fst ` set fl0" by auto
  then obtain l where l: "map_of fl0 k = Some l"
    by (metis domD dom_map_of_conv_image_fst)
  have keys: "fst ` set (AList.update k (l - l * r) fl0) = fst ` set fl0"
    using l by (auto simp add: keys_update dest: map_of_SomeD intro: rev_image_eqI)
  have "fst ` set sw
          \<subseteq> fst ` set (fst (AList.update k (l - l * r) fl0, dict_add pw0 k (l * r)))"
    using Cons.prems kv acc keys by auto
  from Cons.IH[OF this] show ?case using kv acc l
    by (simp add: dict_lookup_def Let_def)
qed

lemma running_ended_total:
  assumes "total_deposits p \<noteq> 0" and "running_period p \<noteq> 0"
    and "fst ` set (signaled_withdrawals p) \<subseteq> fst ` set (deposits p)"
    and "utilizations p \<noteq> []"
  shows "\<exists>p' evs. running_ended p env = Inr (p', evs)"
proof -
  obtain fl rc where s: "settle_deposits (deposits p) (total_deposits p) (available_amount p)
        (total_collateral_locked p) ([], reclaimed_collateral p) = Inr (fl, rc)"
    and k: "fst ` set fl
              = fst ` set (fst ([]::(string, real) dict, reclaimed_collateral p))
                \<union> fst ` set (deposits p)"
    using settle_deposits_total[OF assms(1)] by blast
  from k assms(3)
  have "fst ` set (signaled_withdrawals p) \<subseteq> fst ` set (fst (fl, pending_withdrawals p))"
    by simp
  from execute_withdrawals_total[OF this]
  obtain fl2 pw where
    e: "execute_withdrawals (signaled_withdrawals p) (fl, pending_withdrawals p) = Inr (fl2, pw)"
    by blast
  show ?thesis using s e assms(1,2,4)
    by (simp add: running_ended_def Let_def py_div_def total_seconds_def)
qed

lemma running_ended_fields:
  assumes "running_ended p env = Inr (p', evs)"
  shows "next_cycle_time p' = next_cycle_time p \<and> running_period p' = running_period p
       \<and> is_new_cycle p' = is_new_cycle p \<and> status p' = status p
       \<and> (\<exists>fl. deposits p' = add_residual fl (pending_deposits p))"
  using assms
  by (auto simp add: running_ended_def Let_def split: sum.splits prod.splits)

lemma reset_pool_fields:
  "available_amount (reset_pool p) = sum_list (dict_values (deposits p))
   \<and> total_deposits (reset_pool p) = sum_list (dict_values (deposits p))
   \<and> deposits (reset_pool p) = deposits p
   \<and> borrowed_amount (reset_pool p) = 0 \<and> total_collateral_locked (reset_pool p) = 0
   \<and> total_fees_earned (reset_pool p) = 0
   \<and> pending_deposits (reset_pool p) = [] \<and> signaled_withdrawals (reset_pool p) = []
   \<and> borrower_loans (reset_pool p) = [] \<and> loans (reset_pool p) = []
   \<and> utilizations (reset_pool p) = []
   \<and> next_cycle_time (reset_pool p) = next_cycle_time p + running_period p
   \<and> is_new_cycle (reset_pool p) = is_new_cycle p \<and> status (reset_pool p) = status p"
  by (simp add: reset_pool_def Let_def)

lemma take_step_boundary:
  assumes "get_time env \<ge> next_cycle_time p" and "take_step p env dt = Inr (p', evs)"
  shows "\<exists>p3. p' = reset_pool p3 \<and> next_cycle_time p3 = next_cycle_time p
            \<and> running_period p3 = running_period p \<and> is_new_cycle p3 \<and> status p3 = RUNNING
            \<and> (\<exists>fl. deposits p3 = add_residual fl (pending_deposits p))"
proof (cases "status p = GENESIS")
  case True
  let ?p3 = "fst (genesis_ended
       (p\<lparr>utilizations := utilizations p @ [get_utilization p], is_new_cycle := True\<rparr>) env)"
  have p': "p' = reset_pool ?p3"
    using True assms by (auto simp add: take_step_def Let_def split: prod.splits)
  have dep: "deposits ?p3 = add_residual [] (pending_deposits p)"
    by (simp add: genesis_ended_def Let_def)
  have "next_cycle_time ?p3 = next_cycle_time p \<and> running_period ?p3 = running_period p
        \<and> is_new_cycle ?p3 \<and> status ?p3 = RUNNING"
    by (simp add: genesis_ended_def Let_def)
  with p' dep show ?thesis by blast
next
  case False
  then have st: "status p = RUNNING" by (cases "status p") auto
  from assms False obtain p3 where r: "running_ended
       (p\<lparr>utilizations := utilizations p @ [get_utilization p], is_new_cycle := True\<rparr>) env
         = Inr (p3, evs)"
    and p': "p' = reset_pool p3"
    by (auto simp add: take_step_def Let_def split: sum.splits)
  from running_ended_fields[OF r] p' st show ?thesis by auto
qed

text \<open>
  C1.  When the environment's time has reached \<open>next_cycle_time\<close>, a step of the pool
  that returns leaves \<open>available_amount = total_deposits\<close>, \<open>borrowed_amount = 0\<close>,
  \<open>total_collateral_locked = 0\<close>, \<open>total_fees_earned = 0\<close> and \<open>total_deposits\<close> equal to the
  sum of the values of \<open>deposits\<close> (which, the keys of a dictionary being distinct, is the
  sum over the addresses of \<open>deposits[address]\<close>); the pending deposits, signaled
  withdrawals, loan book and tick history are empty, the pool is running, flagged as in
  a new cycle, and the next boundary is one running period later.  The step does return
  at the end of the genesis period, and at the end of a running cycle whenever
  \<open>total_deposits\<close> and the running period are not zero and every signaled withdrawal
  belongs to a depositor (otherwise the settlement divides by zero or misses a key and the
  step raises instead of starting a cycle).
\<close>

theorem take_step_cycle_start:
  assumes "get_time env \<ge> next_cycle_time p"
  shows "((status p = GENESIS
            \<or> (total_deposits p \<noteq> 0 \<and> running_period p \<noteq> 0
                \<and> fst ` set (signaled_withdrawals p) \<subseteq> fst ` set (deposits p)))
          \<longrightarrow> (\<exists>p' evs. take_step p env dt = Inr (p', evs)))
       \<and> (\<forall>p' evs. take_step p env dt = Inr (p', evs) \<longrightarrow>
             available_amount p' = total_deposits p' \<and> borrowed_amount p' = 0
             \<and> total_collateral_locked p' = 0 \<and> total_fees_earned p' = 0
             \<and> total_deposits p' = sum_list (dict_values (deposits p'))
             \<and> (distinct (map fst (pending_deposits p))
                  \<longrightarrow> distinct (map fst (deposits p'))
                      \<and> total_deposits p'
                          = (\<Sum>a \<in> fst ` set (deposits p'). dict_get (deposits p') a 0))
             \<and> pending_deposits p' = [] \<and> signaled_withdrawals p' = []
             \<and> borrower_loans p' = [] \<and> loans p' = [] \<and> utilizations p' = []
             \<and> next_cycle_time p' = next_cycle_time p + running_period p
             \<and> is_new_cycle p' \<and> status p' = RUNNING)"
proof (intro conjI impI allI)
  assume c: "status p = GENESIS
            \<or> (total_deposits p \<noteq> 0 \<and> running_period p \<noteq> 0
                \<and> fst ` set (signaled_withdrawals p) \<subseteq> fst ` set (deposits p))"
  show "\<exists>p' evs. take_step p env dt = Inr (p', evs)"
  proof (cases "status p = GENESIS")
    case True
    then show ?thesis using assms
      by (simp add: take_step_def Let_def split: prod.splits)
  next
    case False
    let ?p2 = "p\<lparr>utilizations := utilizations p @ [get_utilization p], is_new_cycle := True\<rparr>"
    from c False have "\<exists>p' evs. running_ended ?p2 env = Inr (p', evs)"
      by (intro running_ended_total) auto
    then show ?thesis using False assms
      by (auto simp add: take_step_def Let_def)
  qed
next
  fix p' evs
  assume t: "take_step p env dt = Inr (p', evs)"
  from take_step_boundary[OF assms t] obtain p3 fl where
    p': "p' = reset_pool p3" and n: "next_cycle_time p3 = next_cycle_time p"
    and r: "running_period p3 = running_period p" and i: "is_new_cycle p3"
    and s: "status p3 = RUNNING"
    and d: "deposits p3 = add_residual fl (pending_deposits p)"
    by blast
  note f = reset_pool_fields[of p3]
  show "available_amount p' = total_deposits p'" using f p' by simp
  show "borrowed_amount p' = 0" using f p' by simp
  show "total_collateral_locked p' = 0" using f p' by simp
  show "total_fees_earned p' = 0" using f p' by simp
  show "total_deposits p' = sum_list (dict_values (deposits p'))" using f p' by simp
  show "pending_deposits p' = []" using f p' by simp
  show "signaled_withdrawals p' = []" using f p' by simp
  show "borrower_loans p' = []" using f p' by simp
  show "loans p' = []" using f p' by simp
  show "utilizations p' = []" using f p' by simp
  show "next_cycle_time p' = next_cycle_time p + running_period p" using f p' n r by simp
  show "is_new_cycle p'" using f p' i by simp
  show "status p' = RUNNING" using f p' s by simp
  {
    assume dist: "distinct (map fst (pending_deposits p))"
    have dd: "distinct (map fst (deposits p'))"
      using f p' d distinct_add_residual[OF dist] by simp
    then show "distinct (map fst (deposits p'))" .
    show "total_deposits p' = (\<Sum>a \<in> fst ` set (deposits p'). dict_get (deposits p') a 0)"
      using sum_list_distinct_keys[OF dd] f p' by simp
  }
qed

theorem take_step_cycle_start_witness:
  "next_cycle_time deposited_pool \<le> get_time example_env
   \<and> status deposited_pool = GENESIS
   \<and> (\<exists>p' evs. take_step deposited_pool example_env (timedelta_seconds 60) = Inr (p', evs)
         \<and> available_amount p' = total_deposits p' \<and> borrowed_amount p' = 0
         \<and> total_collateral_locked p' = 0 \<and> total_fees_earned p' = 0
         \<and> total_deposits p' = sum_list (dict_values (deposits p')))
   \<and> next_cycle_time pool_with_loan \<le> get_time cycle_end_env
   \<and> total_deposits pool_with_loan \<noteq> 0 \<and> running_period pool_with_loan \<noteq> 0
   \<and> fst ` set (signaled_withdrawals pool_with_loan) \<subseteq> fst ` set (deposits pool_with_loan)
   \<and> (\<exists>p' evs. take_step pool_with_loan cycle_end_env (timedelta_seconds 60) = Inr (p', evs)
         \<and> available_amount p' = total_deposits p' \<and> borrowed_amount p' = 0
         \<and> total_collateral_locked p' = 0 \<and> total_fees_earned p' = 0
         \<and> total_deposits p' = sum_list (dict_values (deposits p')))"
proof -
  have g1: "next_cycle_time deposited_pool \<le> get_time example_env"
    by (simp add: example_defs)
  have g2: "status deposited_pool = GENESIS"
    by (simp add: example_defs)
  have r1: "next_cycle_time pool_with_loan \<le> get_time cycle_end_env"
    by (simp add: example_defs)
  have r2: "total_deposits pool_with_loan \<noteq> 0 \<and> running_period pool_with_loan \<noteq> 0
     \<and> fst ` set (signaled_withdrawals pool_with_loan) \<subseteq> fst ` set (deposits pool_with_loan)"
    by (simp add: example_defs)
  note G = take_step_cycle_start[OF g1, of "timedelta_seconds 60"]
  note R = take_step_cycle_start[OF r1, of "timedelta_seconds 60"]
  from G g2 obtain pg eg where
    pg: "take_step deposited_pool example_env (timedelta_seconds 60) = Inr (pg, eg)"
    by blast
  from R r2 obtain pr er where
    pr: "take_step pool_with_loan cycle_end_env (timedelta_seconds 60) = Inr (pr, er)"
    by blast
  from G pg have "available_amount pg = total_deposits pg \<and> borrowed_amount pg = 0
         \<and> total_collateral_locked pg = 0 \<and> total_fees_earned pg = 0
         \<and> total_deposits pg = sum_list (dict_values (deposits pg))"
    by blast
  moreover from R pr have "available_amount pr = total_deposits pr \<and> borrowed_amount pr = 0
         \<and> total_collateral_locked pr = 0 \<and> total_fees_earned pr = 0
         \<and> total_deposits pr = sum_list (dict_values (deposits pr))"
    by blast
  ultimately show ?thesis using g1 g2 r1 r2 pg pr by blast
qed

subsection \<open>Lender operations\<close>

text \<open>
  C10.  A deposit of an amount the lender's primary balance covers returns normally,
  whatever the pool's status; the pool after it is the pool before with the lender's
  entry of \<open>pending_deposits\<close> set to its former value (0 when there was none) plus the
  amount, and the wallet after it is the wallet before with the primary balance lowered
  by the amount.  Nothing else is written: \<open>deposits\<close>, the totals, the loan book and
  the secondary balance are those of the record updated.
\<close>

theorem deposit_frame:
  assumes "primary_balance lender \<ge> amt"
  shows "deposit p lender amt =
           (Inr (),
            p\<lparr>pending_deposits :=
                 AList.update (address lender)
                   (dict_get (pending_deposits p) (address lender) 0 + amt)
                   (pending_deposits p)\<rparr>,
            lender\<lparr>primary_balance := primary_balance lender - amt\<rparr>)"
proof (cases "map_of (pending_deposits p) (address lender)")
  case None
  then show ?thesis using assms
    by (simp add: deposit_def dict_iadd_def dict_get_def update_conv')
next
  case (Some v)
  then show ?thesis using assms
    by (simp add: deposit_def dict_iadd_def dict_get_def)
qed

theorem deposit_frame_witness:
  "primary_balance example_lender \<ge> 500
   \<and> status example_pool = GENESIS
   \<and> deposit example_pool example_lender 500
       = (Inr (), example_pool\<lparr>pending_deposits := [(''lender_000000'', 500)]\<rparr>,
          example_lender\<lparr>primary_balance := 500\<rparr>)
   \<and> status running_pool = RUNNING
   \<and> deposit running_pool example_lender 500
       = (Inr (), running_pool\<lparr>pending_deposits := [(''lender_000000'', 500)]\<rparr>,
          example_lender\<lparr>primary_balance := 500\<rparr>)"
proof -
  have h: "primary_balance example_lender \<ge> 500" by (simp add: example_defs)
  show ?thesis
    using h deposit_frame[OF h, of example_pool] deposit_frame[OF h, of running_pool]
    by (simp add: example_defs dict_get_def)
qed

text \<open>
  C6 (code evaluated at the failing inputs).  \<open>withdraw_liquidity\<close> reads both balances
  with a default of 0 but then deletes and decrements the entries themselves.  A lender
  with no pending deposit and 10 of pending withdrawals who withdraws 5 gets a
  \<open>KeyError\<close> from \<open>del\<close>; a lender who withdraws exactly the pending deposit of 5 and
  has no pending-withdrawal entry gets a \<open>KeyError\<close> from the decrement by 0, after the
  pending deposit has been deleted and before the wallet is credited.
\<close>

theorem withdraw_liquidity_missing_entry:
  "withdraw_liquidity
      (example_pool\<lparr>pending_withdrawals := [(''lender_000000'', 10)]\<rparr>) example_lender 5
    = (Inl KeyError, example_pool\<lparr>pending_withdrawals := [(''lender_000000'', 10)]\<rparr>,
       example_lender)
   \<and> withdraw_liquidity
      (example_pool\<lparr>pending_deposits := [(''lender_000000'', 5)]\<rparr>) example_lender 5
    = (Inl KeyError, example_pool, example_lender)"
  by (simp add: withdraw_liquidity_def example_defs dict_get_def dict_del_def dict_iadd_def)

text \<open>
  When the lender has an entry in both dictionaries the withdrawal does go through,
  taking from the pending deposit first.
\<close>

lemma withdraw_liquidity_both_entries:
  assumes "0 < amt"
    and "map_of (pending_deposits p) (address lender) = Some pd"
    and "map_of (pending_withdrawals p) (address lender) = Some pw"
    and "amt \<le> pd + pw"
  shows "withdraw_liquidity p lender amt =
     (Inr (),
      (if amt < pd
       then p\<lparr>pending_deposits :=
                AList.update (address lender) (pd - amt) (pending_deposits p)\<rparr>
       else p\<lparr>pending_deposits := AList.delete (address lender) (pending_deposits p),
              pending_withdrawals :=
                AList.update (address lender) (pw - (amt - pd)) (pending_withdrawals p)\<rparr>),
      lender\<lparr>primary_balance := primary_balance lender + amt\<rparr>)"
  using assms
  by (simp add: withdraw_liquidity_def dict_get_def dict_del_def dict_iadd_def Let_def
      diff_diff_eq2 add_diff_eq)

subsection \<open>Borrower operations\<close>

text \<open>
  C3.  In a running pool, for a loan id listed under the borrower's address whose loan
  has not passed its expiration time, and a primary balance of at least the loan's total
  debt, \<open>repay\<close> returns normally and changes exactly this: \<open>available_amount\<close> grows by
  the total debt, \<open>borrowed_amount\<close> shrinks by the net loan, \<open>total_collateral_locked\<close>
  shrinks by the collateral, \<open>total_fees_earned\<close> grows by the borrowing fee, the id is
  removed (its first occurrence) from the borrower's list, the stored loan is marked
  paid, and the wallet pays the total debt and receives the collateral.
\<close>

theorem repay_mutations:
  assumes "status p = RUNNING"
    and "map_of (borrower_loans p) (address borrower) = Some ids"
    and "lid \<in> set ids"
    and "map_of (loans p) lid = Some the_loan"
    and "\<not> get_time env > expiration_time the_loan"
    and "primary_balance borrower \<ge> total_debt the_loan"
  shows "repay p env borrower lid =
           (Inr (),
            p\<lparr>available_amount := available_amount p + total_debt the_loan,
              borrowed_amount := borrowed_amount p - net_loan the_loan,
              total_collateral_locked := total_collateral_locked p - collateral_amount the_loan,
              total_fees_earned := total_fees_earned p + borrowing_fee the_loan,
              borrower_loans :=
                AList.update (address borrower) (remove1 lid ids) (borrower_loans p),
              loans := AList.update lid (the_loan\<lparr>paid := True\<rparr>) (loans p)\<rparr>,
            borrower\<lparr>primary_balance := primary_balance borrower - total_debt the_loan,
                     secondary_balance := secondary_balance borrower + collateral_amount the_loan\<rparr>)"
  using assms by (simp add: repay_def dict_lookup_def Let_def)

theorem repay_mutations_witness:
  "status pool_with_loan = RUNNING
   \<and> map_of (borrower_loans pool_with_loan) (address example_borrower)
       = Some [''LendingPool-borrower_000000-120'']
   \<and> map_of (loans pool_with_loan) ''LendingPool-borrower_000000-120'' = Some example_loan
   \<and> \<not> get_time example_env > expiration_time example_loan
   \<and> primary_balance example_borrower \<ge> total_debt example_loan
   \<and> repay pool_with_loan example_env example_borrower ''LendingPool-borrower_000000-120''
       = (Inr (),
          running_pool\<lparr>available_amount := 501, borrowed_amount := 0,
             total_collateral_locked := 0, total_fees_earned := 1,
             borrower_loans := [(''borrower_000000'', [])],
             loans := [(''LendingPool-borrower_000000-120'', example_loan\<lparr>paid := True\<rparr>)]\<rparr>,
          example_borrower\<lparr>primary_balance := 999999900,
             secondary_balance := 1000000000 + 1 / 10\<rparr>)"
proof -
  have h1: "status pool_with_loan = RUNNING" by (simp add: example_defs)
  have h2: "map_of (borrower_loans pool_with_loan) (address example_borrower)
              = Some [''LendingPool-borrower_000000-120'']"
    by (simp add: example_defs)
  have h3: "''LendingPool-borrower_000000-120'' \<in> set [''LendingPool-borrower_000000-120'']"
    by simp
  have h4: "map_of (loans pool_with_loan) ''LendingPool-borrower_000000-120'' = Some example_loan"
    by (simp add: example_defs)
  have h5: "\<not> get_time example_env > expiration_time example_loan"
    by (simp add: example_defs)
  have h6: "primary_balance example_borrower \<ge> total_debt example_loan"
    by (simp add: example_defs)
  show ?thesis
    using h1 h2 h4 h5 h6 repay_mutations[OF h1 h2 h3 h4 h5 h6]
    by (simp add: example_defs)
qed

lemma borrow_not_running:
  "status p \<noteq> RUNNING \<Longrightarrow>
   borrow p env b amt col per = (Inl LendingPoolNotRunning, p, b)"
  by (simp add: borrow_def)

text \<open>
  The fee calculation raises what the fee model raises, or the \<open>ZeroDivisionError\<close> of
  the utilization reading.
\<close>

lemma calculate_fee_error:
  assumes "calculate_fee p amt val per = Inl e"
  shows "e = ZeroDivisionError \<or> (\<exists>l u. fee_model p l u per = Inl e)"
  using assms
  by (auto simp add: calculate_fee_def get_current_utilization_def py_div_def Let_def
      split: sum.splits if_splits)

text \<open>
  C2.  If the pool is not running or one of the six listed preconditions fails,
  \<open>borrow\<close> raises the named error of the first check that fails, in the order not
  running, amount too low, insufficient collateral, insufficient balance, insufficient
  liquidity, period too short, period too long.  If none fails, the only exception
  \<open>borrow\<close> can raise is one that the fee calculation raises; so with a fee model that
  raises none of the pool's named errors, \<open>borrow\<close> raises a named error exactly when the
  pool is not running or a listed precondition fails.  Whenever \<open>borrow\<close> raises, the pool
  (its scalars and its loan book) and the borrower's wallet are as they were.
\<close>

theorem borrow_raises:
  "((status p \<noteq> RUNNING \<or> amt < min_loan_amount p
       \<or> amt > collat * get_price env * max_ltv p
       \<or> secondary_balance b < collat \<or> available_amount p < amt
       \<or> per < min_load_period p \<or> per > next_cycle_time p - get_time env)
      \<longrightarrow> fst (borrow p env b amt collat per) =
            Inl (if status p \<noteq> RUNNING then LendingPoolNotRunning
                 else if amt < min_loan_amount p then LoanAmountTooLow
                 else if amt > collat * get_price env * max_ltv p
                   then InsuficientCollateralError amt (np_div amt (collat * get_price env))
                 else if secondary_balance b < collat then InsufficientBalanceError
                 else if available_amount p < amt then InsufficientLiquidityError
                 else if per < min_load_period p then InvalidLoanPeriodShort
                 else InvalidLoanPeriodLong)
          \<and> (\<exists>e. fst (borrow p env b amt collat per) = Inl e \<and> is_pool_error e))
   \<and> (\<not> (status p \<noteq> RUNNING \<or> amt < min_loan_amount p
       \<or> amt > collat * get_price env * max_ltv p
       \<or> secondary_balance b < collat \<or> available_amount p < amt
       \<or> per < min_load_period p \<or> per > next_cycle_time p - get_time env)
      \<longrightarrow> (\<forall>e. fst (borrow p env b amt collat per) = Inl e
               \<longrightarrow> calculate_fee p amt (collat * get_price env) per = Inl e))
   \<and> ((\<forall>l u d e. fee_model p l u d = Inl e \<longrightarrow> \<not> is_pool_error e)
      \<longrightarrow> ((\<exists>e. fst (borrow p env b amt collat per) = Inl e \<and> is_pool_error e)
           \<longleftrightarrow> (status p \<noteq> RUNNING \<or> amt < min_loan_amount p
                \<or> amt > collat * get_price env * max_ltv p
                \<or> secondary_balance b < collat \<or> available_amount p < amt
                \<or> per < min_load_period p \<or> per > next_cycle_time p - get_time env)))
   \<and> (\<forall>e. fst (borrow p env b amt collat per) = Inl e
         \<longrightarrow> snd (borrow p env b amt collat per) = (p, b))"
proof -
  let ?r = "borrow p env b amt collat per"
  let ?pre = "status p \<noteq> RUNNING \<or> amt < min_loan_amount p
       \<or> amt > collat * get_price env * max_ltv p
       \<or> secondary_balance b < collat \<or> available_amount p < amt
       \<or> per < min_load_period p \<or> per > next_cycle_time p - get_time env"
  have named: "?pre \<longrightarrow> fst ?r =
            Inl (if status p \<noteq> RUNNING then LendingPoolNotRunning
                 else if amt < min_loan_amount p then LoanAmountTooLow
                 else if amt > collat * get_price env * max_ltv p
                   then InsuficientCollateralError amt (np_div amt (collat * get_price env))
                 else if secondary_balance b < collat then InsufficientBalanceError
                 else if available_amount p < amt then InsufficientLiquidityError
                 else if per < min_load_period p then InvalidLoanPeriodShort
                 else InvalidLoanPeriodLong)
          \<and> (\<exists>e. fst ?r = Inl e \<and> is_pool_error e)"
    by (cases "status p = RUNNING") (auto simp add: borrow_def Let_def)
  have fee_only: "\<not> ?pre \<longrightarrow>
      (\<forall>e. fst ?r = Inl e \<longrightarrow> calculate_fee p amt (collat * get_price env) per = Inl e)"
    by (auto simp add: borrow_def Let_def split: sum.splits)
  have atomic: "\<forall>e. fst ?r = Inl e \<longrightarrow> snd ?r = (p, b)"
    by (cases "status p = RUNNING") (auto simp add: borrow_def Let_def split: sum.splits)
  have iff: "(\<forall>l u d e. fee_model p l u d = Inl e \<longrightarrow> \<not> is_pool_error e)
      \<longrightarrow> ((\<exists>e. fst ?r = Inl e \<and> is_pool_error e) \<longleftrightarrow> ?pre)"
  proof (intro impI iffI)
    assume fm: "\<forall>l u d e. fee_model p l u d = Inl e \<longrightarrow> \<not> is_pool_error e"
      and ex: "\<exists>e. fst ?r = Inl e \<and> is_pool_error e"
    show ?pre
    proof (rule ccontr)
      assume n: "\<not> ?pre"
      from ex obtain e where e: "fst ?r = Inl e" and pe: "is_pool_error e" by blast
      from fee_only n e have "calculate_fee p amt (collat * get_price env) per = Inl e"
        by blast
      from calculate_fee_error[OF this] fm pe show False by auto
    qed
  next
    assume ?pre
    with named show "\<exists>e. fst ?r = Inl e \<and> is_pool_error e" by blast
  qed
  from named fee_only iff atomic show ?thesis by blast
qed

theorem borrow_raises_witness:
  "available_amount running_pool < 600
   \<and> fst (borrow running_pool example_env example_borrower 600 1 (timedelta_seconds 60))
       = Inl InsufficientLiquidityError
   \<and> snd (borrow running_pool example_env example_borrower 600 1 (timedelta_seconds 60))
       = (running_pool, example_borrower)
   \<and> 5 < min_loan_amount (running_pool\<lparr>min_loan_amount := 10\<rparr>)
   \<and> fst (borrow (running_pool\<lparr>min_loan_amount := 10\<rparr>) example_env example_borrower 5 0
             (timedelta_seconds 60)) = Inl LoanAmountTooLow
   \<and> fst (borrow (running_pool\<lparr>fee_model := \<lambda>l u d. Inl ValueError\<rparr>) example_env
             example_borrower 100 1 (timedelta_seconds 60)) = Inl ValueError
   \<and> calculate_fee (running_pool\<lparr>fee_model := \<lambda>l u d. Inl ValueError\<rparr>) 100
         (1 * get_price example_env) (timedelta_seconds 60) = Inl ValueError
   \<and> snd (borrow (running_pool\<lparr>fee_model := \<lambda>l u d. Inl ValueError\<rparr>) example_env
             example_borrower 100 1 (timedelta_seconds 60))
       = (running_pool\<lparr>fee_model := \<lambda>l u d. Inl ValueError\<rparr>, example_borrower)
   \<and> (\<exists>e. fst (borrow example_pool example_env example_borrower 100 1 (timedelta_seconds 60))
             = Inl e \<and> is_pool_error e)"
proof -
  let ?q = "running_pool\<lparr>fee_model := \<lambda>l u d. Inl ValueError\<rparr>"
  let ?m = "running_pool\<lparr>min_loan_amount := 10\<rparr>"
  have a: "available_amount running_pool < 600" by (simp add: example_defs)
  note B = borrow_raises[of running_pool 600 1 example_env example_borrower
      "timedelta_seconds 60"]
  from B a
  have e: "fst (borrow running_pool example_env example_borrower 600 1 (timedelta_seconds 60))
        = Inl InsufficientLiquidityError"
    by (simp add: example_defs)
  from B e
  have s: "snd (borrow running_pool example_env example_borrower 600 1 (timedelta_seconds 60))
        = (running_pool, example_borrower)"
    by blast
  have m: "5 < min_loan_amount ?m" by (simp add: example_defs)
  note M = borrow_raises[of ?m 5 0 example_env example_borrower "timedelta_seconds 60"]
  from M m
  have z: "fst (borrow ?m example_env example_borrower 5 0 (timedelta_seconds 60))
        = Inl LoanAmountTooLow"
    by (simp add: example_defs)
  note C = borrow_raises[of ?q 100 1 example_env example_borrower "timedelta_seconds 60"]
  have n: "\<not> (status ?q \<noteq> RUNNING \<or> 100 < min_loan_amount ?q
           \<or> 100 > 1 * get_price example_env * max_ltv ?q
           \<or> secondary_balance example_borrower < 1 \<or> available_amount ?q < 100
           \<or> timedelta_seconds 60 < min_load_period ?q
           \<or> timedelta_seconds 60 > next_cycle_time ?q - get_time example_env)"
    by (simp add: example_defs)
  have f: "fst (borrow ?q example_env example_borrower 100 1 (timedelta_seconds 60))
        = Inl ValueError"
    by (simp add: example_defs borrow_def calculate_fee_def get_current_utilization_def
        py_div_def np_div_def Let_def)
  from C n f
  have c: "calculate_fee ?q 100 (1 * get_price example_env) (timedelta_seconds 60)
        = Inl ValueError"
    by blast
  from C f
  have t: "snd (borrow ?q example_env example_borrower 100 1 (timedelta_seconds 60))
        = (?q, example_borrower)"
    by blast
  note G = borrow_raises[of example_pool 100 1 example_env example_borrower
      "timedelta_seconds 60"]
  have fm: "\<forall>l u d e. fee_model example_pool l u d = Inl e \<longrightarrow> \<not> is_pool_error e"
    by (simp add: example_defs)
  have g: "status example_pool \<noteq> RUNNING" by (simp add: example_defs)
  from G fm g
  have x: "\<exists>e. fst (borrow example_pool example_env example_borrower 100 1
                    (timedelta_seconds 60)) = Inl e \<and> is_pool_error e"
    by blast
  from a e s m z f c t x show ?thesis by blast
qed

subsection \<open>Utilization\<close>

text \<open>
  C9.  The utilization that each step appends to the tick history is
  \<open>borrowed / (borrowed + available)\<close>, 0 when that sum is 0, and lies between 0 and 1
  when neither amount is negative; on a step that does not reach the cycle boundary the
  history after the step is the history before followed by that value.  The utilization
  the fee calculation uses is 1 whenever \<open>available_amount\<close> is 0, also when
  \<open>borrowed_amount\<close> is 0 too: on the empty pool the first reading is 0 and the second 1.
\<close>

theorem utilization_readings:
  "get_utilization p =
     (if borrowed_amount p + available_amount p = 0 then 0
      else borrowed_amount p / (borrowed_amount p + available_amount p))
   \<and> (0 \<le> borrowed_amount p \<and> 0 \<le> available_amount p
        \<longrightarrow> 0 \<le> get_utilization p \<and> get_utilization p \<le> 1)
   \<and> (get_time env < next_cycle_time p
        \<longrightarrow> take_step p env time_step =
              Inr (p\<lparr>utilizations := utilizations p @ [get_utilization p],
                      is_new_cycle := False\<rparr>, []))
   \<and> (available_amount p = 0 \<longrightarrow> get_current_utilization p = Inr 1)
   \<and> (available_amount p = 0 \<and> borrowed_amount p = 0
        \<longrightarrow> get_utilization p = 0 \<and> get_current_utilization p = Inr 1
            \<and> Inr (get_utilization p) \<noteq> get_current_utilization p)"
  by (auto simp add: get_utilization_def safe_divide_def get_current_utilization_def
      take_step_def Let_def divide_le_eq)

theorem utilization_readings_witness:
  "0 \<le> borrowed_amount (running_pool\<lparr>available_amount := 0\<rparr>)
   \<and> 0 \<le> available_amount (running_pool\<lparr>available_amount := 0\<rparr>)
   \<and> get_time example_env < next_cycle_time (running_pool\<lparr>available_amount := 0\<rparr>)
   \<and> available_amount (running_pool\<lparr>available_amount := 0\<rparr>) = 0
   \<and> borrowed_amount (running_pool\<lparr>available_amount := 0\<rparr>) = 0
   \<and> get_utilization (running_pool\<lparr>available_amount := 0\<rparr>) = 0
   \<and> get_current_utilization (running_pool\<lparr>available_amount := 0\<rparr>) = Inr 1
   \<and> utilizations (fst (projr (take_step (running_pool\<lparr>available_amount := 0\<rparr>) example_env
                                  (timedelta_seconds 60)))) = [0]"
proof -
  let ?p = "running_pool\<lparr>available_amount := 0\<rparr>"
  have h: "0 \<le> borrowed_amount ?p \<and> 0 \<le> available_amount ?p
     \<and> get_time example_env < next_cycle_time ?p \<and> available_amount ?p = 0
     \<and> borrowed_amount ?p = 0"
    by (simp add: example_defs)
  note U = utilization_readings[of ?p example_env "timedelta_seconds 60"]
  from U h have u: "get_utilization ?p = 0 \<and> get_current_utilization ?p = Inr 1" by blast
  from U h have "take_step ?p example_env (timedelta_seconds 60) =
              Inr (?p\<lparr>utilizations := utilizations ?p @ [get_utilization ?p],
                      is_new_cycle := False\<rparr>, [])" by blast
  then have "utilizations (fst (projr (take_step ?p example_env (timedelta_seconds 60))))
      = utilizations ?p @ [get_utilization ?p]" by simp
  then have "utilizations (fst (projr (take_step ?p example_env (timedelta_seconds 60)))) = [0]"
    using u by (simp add: example_defs)
  with h u show ?thesis by blast
qed

subsection \<open>Kelly fee model\<close>

lemma sorted_le_last: "sorted xs \<Longrightarrow> x \<in> set xs \<Longrightarrow> x \<le> last (xs::real list)"
  by (induction xs) auto

lemma takeWhile_length_full:
  "length (takeWhile P xs) = length xs \<longleftrightarrow> (\<forall>x \<in> set xs. P x)"
proof
  assume "length (takeWhile P xs) = length xs"
  then have "takeWhile P xs = xs"
    using takeWhile_eq_take[of P xs] by simp
  then show "\<forall>x \<in> set xs. P x" by simp
next
  assume "\<forall>x \<in> set xs. P x"
  then have eq: "takeWhile P xs = xs" by simp
  show "length (takeWhile P xs) = length xs" by (subst eq) (rule refl)
qed

text \<open>
  On an ascending, non-empty array \<open>select_next_highest\<close> has two outcomes only: the
  last (largest) element when the value is below it, and \<open>IndexError\<close> otherwise.  The
  index is the maximum, not the minimum, of the insertion point and \<open>len - 1\<close>.
\<close>

lemma select_next_highest_sorted:
  assumes "sorted xs" and "xs \<noteq> []"
  shows "select_next_highest xs v = (if v < last xs then Inr (last xs) else Inl IndexError)"
proof (cases "v < last xs")
  case True
  have "last xs \<in> set xs" using assms(2) by simp
  then have "\<not> (\<forall>x \<in> set xs. x \<le> v)" using True by force
  then have "length (takeWhile (\<lambda>x. x \<le> v) xs) \<noteq> length xs"
    using takeWhile_length_full[of "\<lambda>x. x \<le> v" xs] by blast
  then have "length (takeWhile (\<lambda>x. x \<le> v) xs) < length xs"
    using length_takeWhile_le[of "\<lambda>x. x \<le> v" xs] by linarith
  then show ?thesis using True assms(2)
    by (simp add: select_next_highest_def searchsorted_right_def Let_def last_conv_nth max_def
        nat_diff_distrib)
next
  case False
  have "\<forall>x \<in> set xs. x \<le> v"
    using sorted_le_last[OF assms(1)] False by force
  then have "length (takeWhile (\<lambda>x. x \<le> v) xs) = length xs"
    using takeWhile_length_full[of "\<lambda>x. x \<le> v" xs] by blast
  then show ?thesis using False
    by (simp add: select_next_highest_def searchsorted_right_def Let_def)
qed

text \<open>
  C4 (code evaluated at the failing inputs).  The grid has the ltv values 0.5 and 0.7
  and the day value 30; the curve keyed by 0.5 is constantly 0.01, the one keyed by 0.7
  constantly 0.02.  For an ltv of 0.4 and a period of 10 days the smallest grid ltv that
  is at least 0.4 is 0.5, whose curve gives 0.01; \<open>select_next_highest\<close> returns 0.7 and
  \<open>get_fee\<close> 0.02.  For an ltv of 0.8, above every grid value, \<open>get_fee\<close> raises
  \<open>IndexError\<close> instead of using the maximum 0.7.
\<close>

theorem get_fee_selects_maximum:
  "select_next_highest [5 / 10, 7 / 10] (4 / 10) = Inr (7 / 10)
   \<and> select_next_highest [5 / 10, 7 / 10] (8 / 10) = Inl IndexError
   \<and> get_fee example_kelly (4 / 10) (1 / 2) (timedelta_seconds (10 * 86400)) = Inr (2 / 100)
   \<and> dict_lookup (curve_grid example_kelly) (5 / 10, 30)
       = Inr \<lparr> kc_a = 0, kc_b = 0, kc_c = 1, kc_d = 1 / 100 \<rparr>
   \<and> evaluate \<lparr> kc_a = 0, kc_b = 0, kc_c = 1, kc_d = 1 / 100 \<rparr> (1 / 2) = Inr (1 / 100)
   \<and> get_fee example_kelly (8 / 10) (1 / 2) (timedelta_seconds (10 * 86400)) = Inl IndexError"
  by (simp add: select_next_highest_def searchsorted_right_def get_fee_def example_kelly_def
      example_grid_def evaluate_def dict_lookup_def timedelta_days_def timedelta_seconds_def
      Let_def)

subsection \<open>Agents and strategies\<close>

text \<open>
  A borrower that finds its pool with no more than its loan size available does not ask
  for the loan.
\<close>

lemma ask_for_loan_needs_more:
  assumes "map_of protocol (lending_pool_name ag) = Some pool"
    and "\<not> get_current_available_amount pool > loan_size ag"
  shows "ask_for_loan ag protocol env = (Inr [], protocol, ag)"
  using assms by (simp add: ask_for_loan_def dict_lookup_def Let_def)

text \<open>
  C7 (code evaluated at the failing input).  The borrower has reached its loan start,
  has not borrowed, wants 500 for 60 seconds; the pool has exactly 500 available and 120
  seconds left in its cycle.  \<open>act\<close> compares with \<open>>\<close> and does nothing: no action, pool
  and agent unchanged.  The pool's own check rejects only \<open>available < borrow_amount\<close>:
  the same request made to \<open>borrow\<close> directly is granted.
\<close>

theorem borrower_skips_exact_liquidity:
  "get_time example_env \<ge> loan_start example_borrower_agent
   \<and> \<not> has_borrowed example_borrower_agent
   \<and> get_current_available_amount running_pool = loan_size example_borrower_agent
   \<and> loan_duration example_borrower_agent \<le> next_cycle_time running_pool - get_time example_env
   \<and> CoraBorrowerAgent_act example_borrower_agent [(''LendingPool'', running_pool)] example_env
       = (Inr [], [(''LendingPool'', running_pool)], example_borrower_agent)
   \<and> \<not> isl (fst (borrow running_pool example_env (wallet example_borrower_agent)
                     (loan_size example_borrower_agent) (1 / 2)
                     (loan_duration example_borrower_agent)))"
  by (simp add: CoraBorrowerAgent_act_def ask_for_loan_def return_loan_def
      get_current_available_amount_def dict_lookup_def agent_defs example_defs
      borrow_def calculate_fee_def get_current_utilization_def py_div_def np_div_def Let_def)

text \<open>
  C5 (code evaluated at the failing input).  The agent list holds the pool manager, the
  lender and two borrowers, and the pool reports a new cycle.  Removing the first
  borrower while the loop walks the list shifts the second into the position just
  visited, so the loop ends without looking at it: the second borrower is still in the
  list \<open>update_agents\<close> returns, in the V1 strategy and in the V2 strategy alike.
\<close>

theorem update_agents_keeps_a_borrower:
  "is_new_cycle running_pool
   \<and> CoraV1Strategy_update_agents
        [PoolManager example_manager, Lender example_lender_agent,
         Borrower example_borrower_agent, Borrower second_borrower_agent]
        [(running_pool, [])]
      = [PoolManager example_manager, Lender example_lender_agent, Borrower second_borrower_agent]
   \<and> CoraV2Strategy_update_agents
        [PoolManager example_manager, Lender example_lender_agent,
         Borrower example_borrower_agent, Borrower second_borrower_agent]
        [(running_pool, [])]
      = [PoolManager example_manager, Lender example_lender_agent, Borrower second_borrower_agent]"
  by (simp add: CoraV1Strategy_update_agents_def CoraV2Strategy_update_agents_def
      remove_borrowers.simps Let_def agent_defs example_defs)

subsection \<open>Market chart helper\<close>

text \<open>
  C8 (code evaluated at the failing input).  The source takes the absolute value after
  the floor division, so with the later timestamp first and a difference that is not a
  whole number of days the result is one more than \<open>|t2 - t1| div 86400\<close>: for
  \<open>start = 1\<close>, \<open>end = 0\<close> it returns 1 where the absolute difference, one second, holds
  0 days, and the function is not symmetric.
\<close>

theorem get_days_between_unix_timestamps_reversed:
  "get_days_between_unix_timestamps 1 0 = 1
   \<and> \<bar>(0::int) - 1\<bar> div 86400 = 0
   \<and> get_days_between_unix_timestamps 0 1 = 0"
  by (simp add: get_days_between_unix_timestamps_def)

end
